theory Spec2Isabelle
  imports Complex_Main "HOL-Library.Word" "HOL-Library.Signed_Division"
begin

unbundle bit_operations_syntax

section \<open>Machine types\<close>

text \<open>
  The target is a 32-bit microcontroller: \<open>int\<close> and \<open>unsigned long\<close> are 32 bits wide.
  A field or local of a fixed-width type is a word of that width; it is read with
  \<open>sint\<close> (signed) or \<open>uint\<close> (unsigned) where C++ promotes it to \<open>int\<close>, and a
  value stored back into it is cut to the width with \<open>word_of_int\<close>.
\<close>

type_synonym uint8_t = "8 word"
type_synonym int16_t = "16 word"
type_synonym uint16_t = "16 word"
type_synonym int32_t = "32 word"
type_synonym uint32_t = "32 word"

section \<open>The two-wire bus\<close>

text \<open>
  A transaction selects a register and calls \<open>Wire.requestFrom (address, n)\<close>; the bytes
  the device answers with are the input of the model. \<open>requestFrom\<close> keeps at most the
  \<open>n\<close> bytes asked for in the receive buffer, and a transaction that fails leaves the
  buffer empty. \<open>Wire.available ()\<close> is the number of bytes left in the buffer, and
  \<open>Wire.read ()\<close> takes the next byte as an \<open>int\<close> between 0 and 255, or gives -1
  when the buffer is empty.
\<close>

type_synonym rxbuf = "uint8_t list"

definition requestFrom :: "nat \<Rightarrow> uint8_t list \<Rightarrow> rxbuf" where
  "requestFrom n answer = take n answer"


fun wire_read :: "rxbuf \<Rightarrow> int \<times> rxbuf" where
  "wire_read [] = (- 1, [])"
| "wire_read (b # bs) = (uint b, bs)"

text \<open>
  The expression \<open>Wire.read() << 8 | Wire.read() / d\<close>, stored into an \<open>int16_t\<close>.
  In C++ the division binds tighter than the shift, and the shift tighter than the
  bitwise or, so the expression is \<open>(Wire.read() << 8) | (Wire.read() / d)\<close>: only the
  second byte is divided. The two reads are taken from left to right, the first one
  being the register's high byte, as the source intends (C++ itself leaves the order
  of the two calls open). The division is the truncating one of C++, and the shift
  multiplies by 256, also the -1 of an empty buffer.
\<close>

definition read_axis :: "int \<Rightarrow> rxbuf \<Rightarrow> int16_t \<times> rxbuf" where
  "read_axis d buf =
     (let (first, buf1) = wire_read buf;
          (second, buf2) = wire_read buf1
      in (word_of_int (push_bit 8 first OR (second sdiv d)), buf2))"

section \<open>Floating point, idealised\<close>

text \<open>
  The angles are computed in \<open>double\<close>. The model computes them in the real numbers
  (no rounding), with the special values of IEEE arithmetic written out where the
  source can produce them: a nonzero numerator over a zero denominator is an infinity,
  whose arc tangent is a quarter turn, and zero over zero is not a number, for which
  \<open>None\<close> stands.
\<close>

definition atan_quot :: "int \<Rightarrow> real \<Rightarrow> real option" where
  "atan_quot n d =
     (if d = 0
      then (if n = 0 then None else if 0 < n then Some (pi / 2) else Some (- (pi / 2)))
      else Some (arctan (real_of_int n / d)))"

text \<open>
  Conversion of a \<open>double\<close> to \<open>int16_t\<close> drops the fraction (rounds towards zero).
  The model wraps a value out of the range of the type, and leaves the result for
  not-a-number unspecified; C++ defines neither.
\<close>

definition dtoi :: "real \<Rightarrow> int" where
  "dtoi r = (if 0 \<le> r then \<lfloor>r\<rfloor> else \<lceil>r\<rceil>)"

definition to_int16 :: "real option \<Rightarrow> int16_t" where
  "to_int16 r = (case r of None \<Rightarrow> undefined | Some v \<Rightarrow> word_of_int (dtoi v))"

text \<open>\<open>atan(-1 * AcX_raw / sqrt(pow(AcY_raw, 2) + pow(AcZ_raw, 2))) * 180 / PI\<close>\<close>

definition pitch_angle :: "int16_t \<Rightarrow> int16_t \<Rightarrow> int16_t \<Rightarrow> real option" where
  "pitch_angle x y z =
     map_option (\<lambda>a. a * 180 / pi)
       (atan_quot (- 1 * sint x) (sqrt ((real_of_int (sint y))\<^sup>2 + (real_of_int (sint z))\<^sup>2)))"

text \<open>\<open>atan(AcY_raw / sqrt(pow(AcX_raw, 2) + pow(AcZ_raw, 2))) * 180 / PI\<close>\<close>

definition roll_angle :: "int16_t \<Rightarrow> int16_t \<Rightarrow> int16_t \<Rightarrow> real option" where
  "roll_angle x y z =
     map_option (\<lambda>a. a * 180 / pi)
       (atan_quot (sint y) (sqrt ((real_of_int (sint x))\<^sup>2 + (real_of_int (sint z))\<^sup>2)))"

text \<open>A \<open>double\<close> minus an \<open>int16_t\<close> offset.\<close>

definition minus_offset :: "real option \<Rightarrow> int16_t \<Rightarrow> real option" where
  "minus_offset r off = map_option (\<lambda>a. a - real_of_int (sint off)) r"

section \<open>The IMU object and the shared pitch cell\<close>

record IMU =
  AcX :: int16_t
  AcY :: int16_t
  AcZ :: int16_t
  GyX :: int16_t
  GyY :: int16_t
  GyZ :: int16_t
  AcX_raw :: int16_t
  AcY_raw :: int16_t
  AcZ_raw :: int16_t
  GyX_raw :: int16_t
  GyY_raw :: int16_t
  GyZ_raw :: int16_t
  pitch_offset_acc :: int16_t
  roll_offset_acc :: int16_t
  GyX_offset :: int32_t
  GyY_offset :: int32_t
  GyZ_offset :: int32_t
  pitch_gy_offset :: int32_t
  roll_gy_offset :: int32_t
  yaw_gy_offset :: int32_t

text \<open>
  The global \<open>Share<int16_t> pitch\<close> next to the fields of the global IMU object.
  \<open>None\<close> is the cell nothing has been put into yet.
\<close>

record world = IMU +
  pitch :: "int16_t option"

text \<open>
  Modelled from the spec: the class \<open>Share\<close> (header \<open>taskshare.h\<close>) is not among the
  sources. The spec describes the cell as single-slot and overwrite-on-write, holding
  at most one live value: \<open>pitch.put (v)\<close> replaces whatever the cell held by \<open>v\<close>.
\<close>

definition put :: "int16_t \<Rightarrow> world \<Rightarrow> world" where
  "put v w = w\<lparr>pitch := Some v\<rparr>"

text \<open>
  The three assignments to \<open>AcX_raw\<close>, \<open>AcY_raw\<close> and \<open>AcZ_raw\<close>, in this order.
  The test \<open>Wire.available() == 0\<close> that every function makes before them has two
  empty branches (their bodies are comments): whatever \<open>available\<close> reports, the
  reads that follow are the same, and the test leaves no trace in the functions below.
\<close>

definition read_accel :: "rxbuf \<Rightarrow> world \<Rightarrow> world" where
  "read_accel buf w =
     (let (x, buf1) = read_axis 16384 buf;
          w1 = w\<lparr>AcX_raw := x\<rparr>;
          (y, buf2) = read_axis 16384 buf1;
          w2 = w1\<lparr>AcY_raw := y\<rparr>;
          (z, buf3) = read_axis 16384 buf2
      in w2\<lparr>AcZ_raw := z\<rparr>)"

text \<open>
  \<open>for (int i = lo; i < n; i++) body\<close>: the loop of every calibration pass. The body
  receives the index, which selects the answer of the bus to the transaction of that
  round.
\<close>

function for_loop :: "nat \<Rightarrow> nat \<Rightarrow> (nat \<Rightarrow> 'a \<Rightarrow> 'a) \<Rightarrow> 'a \<Rightarrow> 'a" where
  "for_loop i n body st = (if i < n then for_loop (Suc i) n body (body i st) else st)"
  by pat_completeness auto
termination
  by (relation "measure (\<lambda>(i, n, body, st). n - i)") auto

declare for_loop.simps [simp del]

subsection \<open>Accelerometer\<close>

text \<open>One round of \<open>cal_acc_pitch\<close>, on the locals \<open>count\<close> and \<open>sum\<close> and the object.\<close>

definition cal_acc_pitch_body ::
  "uint8_t list \<Rightarrow> uint16_t \<times> int16_t \<times> world \<Rightarrow> uint16_t \<times> int16_t \<times> world" where
  "cal_acc_pitch_body answer st =
     (case st of (count, sum_v, w) \<Rightarrow>
        let w1 = read_accel (requestFrom 6 answer) w;
            pitch_acc_raw = to_int16 (pitch_angle (AcX_raw w1) (AcY_raw w1) (AcZ_raw w1));
            sum1 = (word_of_int (sint sum_v + sint pitch_acc_raw) :: int16_t)
        in (count + 1, sum1, w1))"

definition cal_acc_pitch :: "(nat \<Rightarrow> uint8_t list) \<Rightarrow> world \<Rightarrow> int16_t \<times> world" where
  "cal_acc_pitch bus w =
     (case for_loop 0 200 (\<lambda>i. cal_acc_pitch_body (bus i)) (0, 0, w) of
        (count, sum_v, w1) \<Rightarrow>
          let w2 = w1\<lparr>pitch_offset_acc := word_of_int (sint sum_v sdiv uint count)\<rparr>
          in (pitch_offset_acc w2, w2))"

definition read_acc_pitch :: "uint8_t list \<Rightarrow> world \<Rightarrow> int16_t \<times> world" where
  "read_acc_pitch answer w =
     (let w1 = read_accel (requestFrom 6 answer) w;
          pitch_acc = to_int16 (minus_offset
                        (pitch_angle (AcX_raw w1) (AcY_raw w1) (AcZ_raw w1))
                        (pitch_offset_acc w1))
      in (pitch_acc, put pitch_acc w1))"

definition cal_acc_roll_body ::
  "uint8_t list \<Rightarrow> uint16_t \<times> int16_t \<times> world \<Rightarrow> uint16_t \<times> int16_t \<times> world" where
  "cal_acc_roll_body answer st =
     (case st of (count, sum_v, w) \<Rightarrow>
        let w1 = read_accel (requestFrom 6 answer) w;
            roll_acc_raw = to_int16 (roll_angle (AcX_raw w1) (AcY_raw w1) (AcZ_raw w1));
            sum1 = (word_of_int (sint sum_v + sint roll_acc_raw) :: int16_t)
        in (count + 1, sum1, w1))"

definition cal_acc_roll :: "(nat \<Rightarrow> uint8_t list) \<Rightarrow> world \<Rightarrow> int16_t \<times> world" where
  "cal_acc_roll bus w =
     (case for_loop 0 500 (\<lambda>i. cal_acc_roll_body (bus i)) (0, 0, w) of
        (count, sum_v, w1) \<Rightarrow>
          let w2 = w1\<lparr>roll_offset_acc := word_of_int (sint sum_v sdiv uint count)\<rparr>
          in (roll_offset_acc w2, w2))"

definition read_acc_roll :: "uint8_t list \<Rightarrow> world \<Rightarrow> int16_t \<times> world" where
  "read_acc_roll answer w =
     (let w1 = read_accel (requestFrom 6 answer) w;
          roll_acc = to_int16 (minus_offset
                       (roll_angle (AcX_raw w1) (AcY_raw w1) (AcZ_raw w1))
                       (roll_offset_acc w1))
      in (roll_acc, w1))"

subsection \<open>Gyroscope\<close>

text \<open>
  In the gyroscope passes \<open>sum\<close> is a \<open>uint16_t\<close>. The offsets are \<open>int32_t\<close> fields,
  and a function returning one of them as \<open>int16_t\<close> keeps its low 16 bits.
\<close>

definition cal_gyro_roll_body ::
  "uint8_t list \<Rightarrow> uint16_t \<times> uint16_t \<times> world \<Rightarrow> uint16_t \<times> uint16_t \<times> world" where
  "cal_gyro_roll_body answer st =
     (case st of (count, sum_v, w) \<Rightarrow>
        let w1 = w\<lparr>GyX_raw := fst (read_axis 131 (requestFrom 2 answer))\<rparr>;
            sum1 = (word_of_int (uint sum_v + sint (GyX_raw w1)) :: uint16_t)
        in (count + 1, sum1, w1))"

definition cal_gyro_roll :: "(nat \<Rightarrow> uint8_t list) \<Rightarrow> world \<Rightarrow> int16_t \<times> world" where
  "cal_gyro_roll bus w =
     (case for_loop 0 200 (\<lambda>i. cal_gyro_roll_body (bus i)) (0, 0, w) of
        (count, sum_v, w1) \<Rightarrow>
          let w2 = w1\<lparr>GyX_offset := word_of_int (uint sum_v sdiv uint count)\<rparr>
          in (ucast (GyX_offset w2), w2))"

text \<open>
  \<open>read_gyro_roll\<close> keeps its angle and its times in locals, which start afresh in
  every call: \<open>current_time\<close> and \<open>previous_time\<close> start at 0, and \<open>roll_gx\<close> is read
  before anything is stored into it, so its starting value \<open>roll_gx0\<close> is whatever the
  stack holds and is an input of the model. \<open>now\<close> is the value of \<open>millis ()\<close>.
  The sum \<open>roll_gx + GyX_raw * duration\<close> is computed in \<open>unsigned long\<close>.
\<close>

definition read_gyro_roll ::
  "int16_t \<Rightarrow> uint32_t \<Rightarrow> uint8_t list \<Rightarrow> world \<Rightarrow> int16_t \<times> world" where
  "read_gyro_roll roll_gx0 now answer w =
     (let roll_gx_prev = roll_gx0;
          current_time0 = (0 :: uint32_t);
          previous_time = current_time0;
          current_time = now;
          duration = (current_time - previous_time) div 1000;
          w1 = w\<lparr>GyX_raw := fst (read_axis 131 (requestFrom 2 answer))\<rparr>;
          w2 = w1\<lparr>GyX_raw := ucast ((scast (GyX_raw w1) :: int32_t) - GyX_offset w1)\<rparr>;
          roll_gx = (ucast ((scast roll_gx0 :: uint32_t) + scast (GyX_raw w2) * duration) :: int16_t)
      in (roll_gx, w2))"

definition cal_gyro_pitch_body ::
  "uint8_t list \<Rightarrow> uint16_t \<times> uint16_t \<times> world \<Rightarrow> uint16_t \<times> uint16_t \<times> world" where
  "cal_gyro_pitch_body answer st =
     (case st of (count, sum_v, w) \<Rightarrow>
        let w1 = w\<lparr>GyY_raw := fst (read_axis 131 (requestFrom 2 answer))\<rparr>;
            sum1 = (word_of_int (uint sum_v + sint (GyY_raw w1)) :: uint16_t)
        in (count + 1, sum1, w1))"

definition cal_gyro_pitch :: "(nat \<Rightarrow> uint8_t list) \<Rightarrow> world \<Rightarrow> int16_t \<times> world" where
  "cal_gyro_pitch bus w =
     (case for_loop 0 200 (\<lambda>i. cal_gyro_pitch_body (bus i)) (0, 0, w) of
        (count, sum_v, w1) \<Rightarrow> (ucast (roll_gy_offset w1), w1))"

definition cal_gyro_yaw_body ::
  "uint8_t list \<Rightarrow> uint16_t \<times> uint16_t \<times> world \<Rightarrow> uint16_t \<times> uint16_t \<times> world" where
  "cal_gyro_yaw_body answer st =
     (case st of (count, sum_v, w) \<Rightarrow>
        let w1 = w\<lparr>GyZ_raw := fst (read_axis 131 (requestFrom 2 answer))\<rparr>;
            sum1 = (word_of_int (uint sum_v + sint (GyZ_raw w1)) :: uint16_t)
        in (count + 1, sum1, w1))"

definition cal_gyro_yaw :: "(nat \<Rightarrow> uint8_t list) \<Rightarrow> world \<Rightarrow> int16_t \<times> world" where
  "cal_gyro_yaw bus w =
     (case for_loop 0 200 (\<lambda>i. cal_gyro_yaw_body (bus i)) (0, 0, w) of
        (count, sum_v, w1) \<Rightarrow> (ucast (yaw_gy_offset w1), w1))"

text \<open>\<open>IMU_init\<close> only talks to the bus (it wakes the sensor up); it stores nothing.\<close>

definition IMU_init :: "uint16_t \<Rightarrow> uint16_t \<Rightarrow> uint16_t \<Rightarrow> uint16_t \<Rightarrow> world \<Rightarrow> world" where
  "IMU_init SDA_LINE SCL_LINE IMU_ADDR PWR_MGMT_1 w = w"

text \<open>
  The member functions of the class that have a body, as calls with their inputs.
  (\<open>read_gyro_pitch\<close> and \<open>read_gyro_yaw\<close> are declared and never defined.)
\<close>

datatype imu_call =
    Call_IMU_init uint16_t uint16_t uint16_t uint16_t
  | Call_cal_acc_pitch "nat \<Rightarrow> uint8_t list"
  | Call_read_acc_pitch "uint8_t list"
  | Call_cal_acc_roll "nat \<Rightarrow> uint8_t list"
  | Call_read_acc_roll "uint8_t list"
  | Call_cal_gyro_roll "nat \<Rightarrow> uint8_t list"
  | Call_read_gyro_roll int16_t uint32_t "uint8_t list"
  | Call_cal_gyro_pitch "nat \<Rightarrow> uint8_t list"
  | Call_cal_gyro_yaw "nat \<Rightarrow> uint8_t list"

fun run_call :: "imu_call \<Rightarrow> world \<Rightarrow> world" where
  "run_call (Call_IMU_init a b c d) w = IMU_init a b c d w"
| "run_call (Call_cal_acc_pitch bus) w = snd (cal_acc_pitch bus w)"
| "run_call (Call_read_acc_pitch answer) w = snd (read_acc_pitch answer w)"
| "run_call (Call_cal_acc_roll bus) w = snd (cal_acc_roll bus w)"
| "run_call (Call_read_acc_roll answer) w = snd (read_acc_roll answer w)"
| "run_call (Call_cal_gyro_roll bus) w = snd (cal_gyro_roll bus w)"
| "run_call (Call_read_gyro_roll g now answer) w = snd (read_gyro_roll g now answer w)"
| "run_call (Call_cal_gyro_pitch bus) w = snd (cal_gyro_pitch bus w)"
| "run_call (Call_cal_gyro_yaw bus) w = snd (cal_gyro_yaw bus w)"

section \<open>The motor\<close>

text \<open>
  What a motor does is the sequence of its \<open>ledcWrite (channel, duty)\<close> calls. Every
  motor object writes to the channels 0 and 1.
\<close>

type_synonym ledc = "(uint8_t \<times> uint32_t) list"

definition ledcWrite :: "uint8_t \<Rightarrow> uint32_t \<Rightarrow> ledc \<Rightarrow> ledc" where
  "ledcWrite chan duty hw = hw @ [(chan, duty)]"

text \<open>The duty cycle a channel is left with: the last one written to it.\<close>

fun duty_of :: "ledc \<Rightarrow> uint8_t \<Rightarrow> uint32_t option" where
  "duty_of [] chan = None"
| "duty_of ((c, d) # hw) chan =
     (case duty_of hw chan of Some d' \<Rightarrow> Some d' | None \<Rightarrow> if c = chan then Some d else None)"

definition spin :: "uint8_t \<Rightarrow> uint8_t \<Rightarrow> ledc \<Rightarrow> ledc" where
  "spin ch1_dc ch2_dc hw =
     (let in1_channel = 0; in2_channel = 1;
          hw1 = ledcWrite in1_channel (ucast ch1_dc) hw
      in ledcWrite in2_channel (ucast ch2_dc) hw1)"

definition brake :: "ledc \<Rightarrow> ledc" where
  "brake hw =
     (let in1_channel = 0; in2_channel = 1;
          hw1 = ledcWrite in1_channel 255 hw
      in ledcWrite in2_channel 255 hw1)"

section \<open>The pitch task\<close>

text \<open>
  The locals of \<open>task_PITCH\<close> that change, and the pitch motor. The states are the
  numbers of the source: 0 idle, 1 compute direction, 2 drive negative, 3 drive
  positive, 4 settle. One pass of the \<open>while\<close> loop runs the five \<open>if (state == k)\<close>
  blocks in order, each on the state the one before left. \<open>p\<close> is what \<open>pitch.get ()\<close>
  returns in this pass.
\<close>

record pitch_task =
  state :: int16_t
  err_pitch :: int16_t
  current_pitch :: int16_t
  prev_pitch :: int16_t
  set_pitch :: int16_t
  pitch_motor :: ledc

definition pitch_home :: int16_t where "pitch_home = 0"
definition err_accept :: int16_t where "err_accept = 10"
definition pitch_kp :: int16_t where "pitch_kp = 10"

definition state0_block :: "int16_t \<Rightarrow> pitch_task \<Rightarrow> pitch_task" where
  "state0_block p t =
     (if state t = 0 then
        let t1 = t\<lparr>pitch_motor := brake (pitch_motor t)\<rparr>;
            t2 = t1\<lparr>prev_pitch := current_pitch t1\<rparr>;
            t3 = t2\<lparr>current_pitch := p\<rparr>;
            t4 = t3\<lparr>err_pitch := word_of_int (sint pitch_home - sint (current_pitch t3))\<rparr>;
            t5 = (if \<bar>sint (err_pitch t4)\<bar> < \<bar>sint err_accept\<bar> then t4\<lparr>state := 4\<rparr> else t4)
        in (if \<bar>sint (err_pitch t5)\<bar> > \<bar>sint err_accept\<bar> then t5\<lparr>state := 1\<rparr> else t5)
      else t)"

text \<open>
  The third condition of this block is \<open>set_pitch = 0\<close>, an assignment: it stores 0
  into \<open>set_pitch\<close>, and its value, 0, is false.
\<close>

definition state1_block :: "pitch_task \<Rightarrow> pitch_task" where
  "state1_block t =
     (if state t = 1 then
        let t1 = t\<lparr>set_pitch := word_of_int (sint (err_pitch t) * sint pitch_kp)\<rparr>;
            t2 = (if sint (set_pitch t1) < 0 then t1\<lparr>state := 2\<rparr> else t1);
            t3 = (if sint (set_pitch t2) > 0 then t2\<lparr>state := 3\<rparr> else t2);
            t4 = t3\<lparr>set_pitch := 0\<rparr>
        in (if set_pitch t4 \<noteq> 0 then t4\<lparr>state := 4\<rparr> else t4)
      else t)"

definition state2_block :: "pitch_task \<Rightarrow> pitch_task" where
  "state2_block t =
     (if state t = 2 then t\<lparr>pitch_motor := spin 25 0 (pitch_motor t), state := 4\<rparr> else t)"

definition state3_block :: "pitch_task \<Rightarrow> pitch_task" where
  "state3_block t =
     (if state t = 3 then t\<lparr>pitch_motor := spin 0 50 (pitch_motor t), state := 4\<rparr> else t)"

definition state4_block :: "pitch_task \<Rightarrow> pitch_task" where
  "state4_block t =
     (if state t = 4 then t\<lparr>pitch_motor := brake (pitch_motor t), state := 0\<rparr> else t)"

definition task_PITCH_pass :: "int16_t \<Rightarrow> pitch_task \<Rightarrow> pitch_task" where
  "task_PITCH_pass p t =
     state4_block (state3_block (state2_block (state1_block (state0_block p t))))"

section \<open>Concrete inputs\<close>

text \<open>
  The global IMU object as the program starts (a global is zero-initialised), with
  nothing published yet, and the locals of the pitch task with the motor untouched.
\<close>

definition world0 :: world where
  "world0 = \<lparr>AcX = 0, AcY = 0, AcZ = 0, GyX = 0, GyY = 0, GyZ = 0,
     AcX_raw = 0, AcY_raw = 0, AcZ_raw = 0, GyX_raw = 0, GyY_raw = 0, GyZ_raw = 0,
     pitch_offset_acc = 0, roll_offset_acc = 0,
     GyX_offset = 0, GyY_offset = 0, GyZ_offset = 0,
     pitch_gy_offset = 0, roll_gy_offset = 0, yaw_gy_offset = 0, pitch = None\<rparr>"

definition task0 :: pitch_task where
  "task0 = \<lparr>state = 0, err_pitch = 0, current_pitch = 0, prev_pitch = 0, set_pitch = 0,
     pitch_motor = []\<rparr>"

text \<open>
  Two answers of the accelerometer, high byte first (x, y, z). Tilted: the sensor
  sends x = 12000, y = 7200, z = 9600. Steep: gravity on the y axis, z nearly zero.
\<close>

definition tilted_answer :: "uint8_t list" where
  "tilted_answer = [0x2E, 0xE0, 0x1C, 0x20, 0x25, 0x80]"

definition steep_answer :: "uint8_t list" where
  "steep_answer = [0x00, 0x00, 0x40, 0x00, 0x01, 0x00]"


text \<open>
  The three raw values an answer of the accelerometer is stored as (they do not depend
  on what the object held before), and the values of the locals \<open>pitch_acc_raw\<close> and
  \<open>roll_acc_raw\<close> of a calibration round that receives this answer.
\<close>

definition accel_axes :: "uint8_t list \<Rightarrow> int16_t \<times> int16_t \<times> int16_t" where
  "accel_axes answer =
     (let w = read_accel (requestFrom 6 answer) world0 in (AcX_raw w, AcY_raw w, AcZ_raw w))"

definition pitch_acc_raw :: "uint8_t list \<Rightarrow> int16_t" where
  "pitch_acc_raw answer = (case accel_axes answer of (x, y, z) \<Rightarrow> to_int16 (pitch_angle x y z))"

definition roll_acc_raw :: "uint8_t list \<Rightarrow> int16_t" where
  "roll_acc_raw answer = (case accel_axes answer of (x, y, z) \<Rightarrow> to_int16 (roll_angle x y z))"

section \<open>What a bus read stores\<close>

text \<open>
  With both bytes present, an accelerometer axis is the first byte times 256: the
  second byte, divided by 16384 on its own, contributes nothing.
\<close>

lemma read_axis_accel_bytes:
  "read_axis 16384 (hi # lo # buf) = (push_bit 8 (ucast hi), buf)"
proof -
  have "uint lo < 16384" using uint_bounded [of lo] by simp
  then have "uint lo sdiv 16384 = 0"
    by (simp add: signed_divide_int_def)
  then show ?thesis
    by (simp add: read_axis_def push_bit_eq_mult)
qed

text \<open>
  C1: the claim is that the two bytes of an axis are combined into one 16-bit value
  and that this combined value is divided by the sensitivity divisor (16384 for the
  accelerometer, 131 for the gyroscope). The code divides the second byte only, before
  combining: the accelerometer bytes 0x40, 0x00 (combined 16384, one g) are stored as
  16384 and not as 1, and the gyroscope bytes 0x01, 0x83 (combined 387) as 257 and
  not as 2.
\<close>

theorem read_axis_divides_second_byte_only:
  "fst (read_axis 16384 [0x40, 0x00]) = 16384
   \<and> fst (read_axis 131 [0x01, 0x00]) = 256
   \<and> fst (read_axis 131 [0x01, 0x83]) = 257"
  by (simp add: read_axis_def signed_divide_int_def)

section \<open>Braking\<close>

lemma duty_of_append:
  "duty_of (hw @ hw') chan =
     (case duty_of hw' chan of Some d \<Rightarrow> Some d | None \<Rightarrow> duty_of hw chan)"
  by (induction hw) (auto split: option.splits)

text \<open>
  C8: every call of \<open>Motor::brake\<close> writes the largest 8-bit duty cycle, 255, to both
  channels of the motor (channel 0, then channel 1), and so leaves both at 255, not
  at zero.
\<close>

theorem brake_writes_full_duty:
  "brake hw = hw @ [(0, 255), (1, 255)]
   \<and> duty_of (brake hw) 0 = Some 255
   \<and> duty_of (brake hw) 1 = Some 255"
  by (simp add: brake_def ledcWrite_def duty_of_append)

section \<open>Rules for the calibration loop\<close>

text \<open>What no round changes, the loop does not change.\<close>

lemma for_loop_frame:
  assumes "\<And>j s. f (body j s) = f s"
  shows "f (for_loop i n body st) = f st"
  using assms
proof (induction i n body st rule: for_loop.induct)
  case (1 i n body st)
  show ?case
  proof (cases "i < n")
    case True
    then have "f (for_loop i n body st) = f (for_loop (Suc i) n body (body i st))"
      by (subst for_loop.simps) simp
    also have "\<dots> = f (body i st)" using True 1 by simp
    finally show ?thesis using 1(2) by simp
  next
    case False
    then show ?thesis by (subst for_loop.simps) simp
  qed
qed

text \<open>An invariant indexed by the round holds, at the bound, when the loop is left.\<close>

lemma for_loop_inv:
  assumes "P i st"
    and "\<And>j s. i \<le> j \<Longrightarrow> j < n \<Longrightarrow> P j s \<Longrightarrow> P (Suc j) (body j s)"
    and "i \<le> n"
  shows "P n (for_loop i n body st)"
  using assms
proof (induction i n body st rule: for_loop.induct)
  case (1 i n body st)
  show ?case
  proof (cases "i < n")
    case True
    have "P n (for_loop (Suc i) n body (body i st))"
    proof (rule "1.IH" [OF True])
      show "P (Suc i) (body i st)" using "1.prems" True by simp
      show "\<And>j s. Suc i \<le> j \<Longrightarrow> j < n \<Longrightarrow> P j s \<Longrightarrow> P (Suc j) (body j s)"
        using "1.prems"(2) by simp
      show "Suc i \<le> n" using True by simp
    qed
    then show ?thesis using True by (subst for_loop.simps) simp
  next
    case False
    with "1.prems" have "i = n" by simp
    then show ?thesis using "1.prems"(1) by (subst for_loop.simps) simp
  qed
qed

section \<open>What the member functions leave alone\<close>

lemma read_accel_keeps:
  "pitch_offset_acc (read_accel buf w) = pitch_offset_acc w"
  "roll_offset_acc (read_accel buf w) = roll_offset_acc w"
  "GyX_offset (read_accel buf w) = GyX_offset w"
  "GyY_offset (read_accel buf w) = GyY_offset w"
  "GyZ_offset (read_accel buf w) = GyZ_offset w"
  "pitch_gy_offset (read_accel buf w) = pitch_gy_offset w"
  "roll_gy_offset (read_accel buf w) = roll_gy_offset w"
  "yaw_gy_offset (read_accel buf w) = yaw_gy_offset w"
  "pitch (read_accel buf w) = pitch w"
  by (simp_all add: read_accel_def Let_def split: prod.splits)

text \<open>
  C9: a call of \<open>read_acc_roll\<close> leaves the shared pitch cell as it was; the roll
  read returns its value and publishes nothing.
\<close>

theorem read_acc_roll_keeps_pitch_cell:
  "pitch (snd (read_acc_roll answer w)) = pitch w"
  by (simp add: read_acc_roll_def Let_def read_accel_keeps)

text \<open>The pair of the two fields that \<open>cal_gyro_pitch\<close> and \<open>cal_gyro_yaw\<close> return.\<close>

lemma bodies_keep_returned_fields:
  "(roll_gy_offset (snd (snd (cal_acc_pitch_body a st))), yaw_gy_offset (snd (snd (cal_acc_pitch_body a st))))
     = (roll_gy_offset (snd (snd st)), yaw_gy_offset (snd (snd st)))"
  "(roll_gy_offset (snd (snd (cal_acc_roll_body a st))), yaw_gy_offset (snd (snd (cal_acc_roll_body a st))))
     = (roll_gy_offset (snd (snd st)), yaw_gy_offset (snd (snd st)))"
  "(roll_gy_offset (snd (snd (cal_gyro_roll_body a st))), yaw_gy_offset (snd (snd (cal_gyro_roll_body a st))))
     = (roll_gy_offset (snd (snd st)), yaw_gy_offset (snd (snd st)))"
  "(roll_gy_offset (snd (snd (cal_gyro_pitch_body a st))), yaw_gy_offset (snd (snd (cal_gyro_pitch_body a st))))
     = (roll_gy_offset (snd (snd st)), yaw_gy_offset (snd (snd st)))"
  "(roll_gy_offset (snd (snd (cal_gyro_yaw_body a st))), yaw_gy_offset (snd (snd (cal_gyro_yaw_body a st))))
     = (roll_gy_offset (snd (snd st)), yaw_gy_offset (snd (snd st)))"
  by (simp_all add: cal_acc_pitch_body_def cal_acc_roll_body_def cal_gyro_roll_body_def
      cal_gyro_pitch_body_def cal_gyro_yaw_body_def Let_def read_accel_keeps case_prod_unfold)

lemma loop_keeps_returned_fields:
  assumes "\<And>a st. (roll_gy_offset (snd (snd (body a st))), yaw_gy_offset (snd (snd (body a st))))
     = (roll_gy_offset (snd (snd st)), yaw_gy_offset (snd (snd st)))"
  shows "roll_gy_offset (snd (snd (for_loop i n (\<lambda>j. body (bus j)) (c, t, w)))) = roll_gy_offset w
    \<and> yaw_gy_offset (snd (snd (for_loop i n (\<lambda>j. body (bus j)) (c, t, w)))) = yaw_gy_offset w"
proof -
  have "(\<lambda>st. (roll_gy_offset (snd (snd st)), yaw_gy_offset (snd (snd st))))
          (for_loop i n (\<lambda>j. body (bus j)) (c, t, w))
        = (\<lambda>st. (roll_gy_offset (snd (snd st)), yaw_gy_offset (snd (snd st)))) (c, t, w)"
    by (rule for_loop_frame) (rule assms)
  then show ?thesis by simp
qed

lemma run_call_keeps_returned_fields:
  "roll_gy_offset (run_call c w) = roll_gy_offset w
   \<and> yaw_gy_offset (run_call c w) = yaw_gy_offset w"
proof (cases c)
  case (Call_cal_acc_pitch bus)
  then show ?thesis
    using loop_keeps_returned_fields [OF bodies_keep_returned_fields(1), where i = 0 and n = 200 and bus = bus and c = 0 and t = 0 and w = w]
    by (simp add: cal_acc_pitch_def Let_def case_prod_unfold)
next
  case (Call_cal_acc_roll bus)
  then show ?thesis
    using loop_keeps_returned_fields [OF bodies_keep_returned_fields(2), where i = 0 and n = 500 and bus = bus and c = 0 and t = 0 and w = w]
    by (simp add: cal_acc_roll_def Let_def case_prod_unfold)
next
  case (Call_cal_gyro_roll bus)
  then show ?thesis
    using loop_keeps_returned_fields [OF bodies_keep_returned_fields(3), where i = 0 and n = 200 and bus = bus and c = 0 and t = 0 and w = w]
    by (simp add: cal_gyro_roll_def Let_def case_prod_unfold)
next
  case (Call_cal_gyro_pitch bus)
  then show ?thesis
    using loop_keeps_returned_fields [OF bodies_keep_returned_fields(4), where i = 0 and n = 200 and bus = bus and c = 0 and t = 0 and w = w]
    by (simp add: cal_gyro_pitch_def case_prod_unfold)
next
  case (Call_cal_gyro_yaw bus)
  then show ?thesis
    using loop_keeps_returned_fields [OF bodies_keep_returned_fields(5), where i = 0 and n = 200 and bus = bus and c = 0 and t = 0 and w = w]
    by (simp add: cal_gyro_yaw_def case_prod_unfold)
qed (simp_all add: IMU_init_def read_acc_pitch_def read_acc_roll_def read_gyro_roll_def
    put_def Let_def read_accel_keeps)

text \<open>A gyroscope pitch pass changes \<open>GyY_raw\<close> and nothing else; a yaw pass \<open>GyZ_raw\<close>.\<close>

lemma cal_gyro_pitch_frame:
  "(snd (cal_gyro_pitch bus w))\<lparr>GyY_raw := x\<rparr> = w\<lparr>GyY_raw := x\<rparr>"
proof -
  have "(snd (snd (for_loop 0 200 (\<lambda>i. cal_gyro_pitch_body (bus i)) (0, 0, w))))\<lparr>GyY_raw := x\<rparr>
        = (snd (snd (0 :: uint16_t, 0 :: uint16_t, w)))\<lparr>GyY_raw := x\<rparr>"
    by (rule for_loop_frame [where f = "\<lambda>st. (snd (snd st))\<lparr>GyY_raw := x\<rparr>"])
       (simp add: cal_gyro_pitch_body_def Let_def split: prod.splits)
  then show ?thesis
    by (simp add: cal_gyro_pitch_def case_prod_unfold)
qed

lemma cal_gyro_yaw_frame:
  "(snd (cal_gyro_yaw bus w))\<lparr>GyZ_raw := x\<rparr> = w\<lparr>GyZ_raw := x\<rparr>"
proof -
  have "(snd (snd (for_loop 0 200 (\<lambda>i. cal_gyro_yaw_body (bus i)) (0, 0, w))))\<lparr>GyZ_raw := x\<rparr>
        = (snd (snd (0 :: uint16_t, 0 :: uint16_t, w)))\<lparr>GyZ_raw := x\<rparr>"
    by (rule for_loop_frame [where f = "\<lambda>st. (snd (snd st))\<lparr>GyZ_raw := x\<rparr>"])
       (simp add: cal_gyro_yaw_body_def Let_def split: prod.splits)
  then show ?thesis
    by (simp add: cal_gyro_yaw_def case_prod_unfold)
qed

lemma cal_gyro_pitch_offsets:
  "GyX_offset (snd (cal_gyro_pitch bus w)) = GyX_offset w"
  "GyY_offset (snd (cal_gyro_pitch bus w)) = GyY_offset w"
  "GyZ_offset (snd (cal_gyro_pitch bus w)) = GyZ_offset w"
  "roll_gy_offset (snd (cal_gyro_pitch bus w)) = roll_gy_offset w"
  "pitch_gy_offset (snd (cal_gyro_pitch bus w)) = pitch_gy_offset w"
  "yaw_gy_offset (snd (cal_gyro_pitch bus w)) = yaw_gy_offset w"
  using arg_cong [OF cal_gyro_pitch_frame [where bus = bus and w = w and x = 0], of GyX_offset]
    arg_cong [OF cal_gyro_pitch_frame [where bus = bus and w = w and x = 0], of GyY_offset]
    arg_cong [OF cal_gyro_pitch_frame [where bus = bus and w = w and x = 0], of GyZ_offset]
    arg_cong [OF cal_gyro_pitch_frame [where bus = bus and w = w and x = 0], of roll_gy_offset]
    arg_cong [OF cal_gyro_pitch_frame [where bus = bus and w = w and x = 0], of pitch_gy_offset]
    arg_cong [OF cal_gyro_pitch_frame [where bus = bus and w = w and x = 0], of yaw_gy_offset]
  by simp_all

lemma cal_gyro_yaw_offsets:
  "GyX_offset (snd (cal_gyro_yaw bus w)) = GyX_offset w"
  "GyY_offset (snd (cal_gyro_yaw bus w)) = GyY_offset w"
  "GyZ_offset (snd (cal_gyro_yaw bus w)) = GyZ_offset w"
  "roll_gy_offset (snd (cal_gyro_yaw bus w)) = roll_gy_offset w"
  "pitch_gy_offset (snd (cal_gyro_yaw bus w)) = pitch_gy_offset w"
  "yaw_gy_offset (snd (cal_gyro_yaw bus w)) = yaw_gy_offset w"
  using arg_cong [OF cal_gyro_yaw_frame [where bus = bus and w = w and x = 0], of GyX_offset]
    arg_cong [OF cal_gyro_yaw_frame [where bus = bus and w = w and x = 0], of GyY_offset]
    arg_cong [OF cal_gyro_yaw_frame [where bus = bus and w = w and x = 0], of GyZ_offset]
    arg_cong [OF cal_gyro_yaw_frame [where bus = bus and w = w and x = 0], of roll_gy_offset]
    arg_cong [OF cal_gyro_yaw_frame [where bus = bus and w = w and x = 0], of pitch_gy_offset]
    arg_cong [OF cal_gyro_yaw_frame [where bus = bus and w = w and x = 0], of yaw_gy_offset]
  by simp_all

lemma cal_gyro_pitch_result: "fst (cal_gyro_pitch bus w) = ucast (roll_gy_offset w)"
proof -
  have "fst (cal_gyro_pitch bus w) = ucast (roll_gy_offset (snd (cal_gyro_pitch bus w)))"
    by (simp add: cal_gyro_pitch_def case_prod_unfold)
  then show ?thesis by (simp only: cal_gyro_pitch_offsets)
qed

lemma cal_gyro_yaw_result: "fst (cal_gyro_yaw bus w) = ucast (yaw_gy_offset w)"
proof -
  have "fst (cal_gyro_yaw bus w) = ucast (yaw_gy_offset (snd (cal_gyro_yaw bus w)))"
    by (simp add: cal_gyro_yaw_def case_prod_unfold)
  then show ?thesis by (simp only: cal_gyro_yaw_offsets)
qed

text \<open>
  C10: \<open>cal_gyro_pitch\<close> and \<open>cal_gyro_yaw\<close> change none of the gyroscope offset fields
  \<open>GyY_offset\<close>, \<open>GyZ_offset\<close>, \<open>roll_gy_offset\<close>, \<open>pitch_gy_offset\<close> and
  \<open>yaw_gy_offset\<close>; what they return is the field \<open>roll_gy_offset\<close>, respectively
  \<open>yaw_gy_offset\<close>, as it was before the call (cut to 16 bits); and no member
  function of the class, on any input, changes either of these two fields.
\<close>

theorem cal_gyro_pitch_yaw_assign_no_offset:
  "GyY_offset (snd (cal_gyro_pitch bus w)) = GyY_offset w
   \<and> GyZ_offset (snd (cal_gyro_pitch bus w)) = GyZ_offset w
   \<and> roll_gy_offset (snd (cal_gyro_pitch bus w)) = roll_gy_offset w
   \<and> pitch_gy_offset (snd (cal_gyro_pitch bus w)) = pitch_gy_offset w
   \<and> yaw_gy_offset (snd (cal_gyro_pitch bus w)) = yaw_gy_offset w
   \<and> fst (cal_gyro_pitch bus w) = ucast (roll_gy_offset w)
   \<and> GyY_offset (snd (cal_gyro_yaw bus w)) = GyY_offset w
   \<and> GyZ_offset (snd (cal_gyro_yaw bus w)) = GyZ_offset w
   \<and> roll_gy_offset (snd (cal_gyro_yaw bus w)) = roll_gy_offset w
   \<and> pitch_gy_offset (snd (cal_gyro_yaw bus w)) = pitch_gy_offset w
   \<and> yaw_gy_offset (snd (cal_gyro_yaw bus w)) = yaw_gy_offset w
   \<and> fst (cal_gyro_yaw bus w) = ucast (yaw_gy_offset w)
   \<and> (\<forall>c v. roll_gy_offset (run_call c v) = roll_gy_offset v
            \<and> yaw_gy_offset (run_call c v) = yaw_gy_offset v)"
  by (simp only: cal_gyro_pitch_offsets cal_gyro_yaw_offsets cal_gyro_pitch_result
      cal_gyro_yaw_result run_call_keeps_returned_fields simp_thms)

section \<open>Facts about the arc tangent in degrees\<close>

lemma arctan_le_arg:
  fixes x :: real
  assumes "0 \<le> x"
  shows "arctan x \<le> x"
proof -
  let ?f = "\<lambda>u. u - arctan u"
  have "\<exists>y. (?f has_real_derivative y) (at u) \<and> 0 \<le> y" for u :: real
  proof -
    have "(?f has_real_derivative (1 - inverse (1 + u\<^sup>2))) (at u)"
      by (auto intro!: derivative_eq_intros)
    moreover have "inverse (1 + u\<^sup>2) \<le> 1"
      by (simp add: inverse_le_1_iff)
    ultimately show ?thesis by (intro exI [of _ "1 - inverse (1 + u\<^sup>2)"]) simp
  qed
  then have "?f 0 \<le> ?f x"
    by (intro DERIV_nonneg_imp_nondecreasing [OF assms]) blast
  then show ?thesis by simp
qed

lemma pi_ge_three: "3 \<le> pi"
proof -
  have "sin (pi / 6) \<le> pi / 6"
    by (rule sin_x_le_x) simp
  then show ?thesis by (simp add: sin_30)
qed

text \<open>The arc tangent of 64 lies between 89 and 90 degrees.\<close>

lemma arctan_64_degrees:
  "89 \<le> arctan 64 * 180 / pi" "arctan 64 * 180 / pi < 90"
proof -
  have inv: "arctan (1 / 64) = pi / 2 - arctan 64"
    using arctan_inverse [of 64] by simp
  have "arctan (1 / 64) \<le> 1 / 64"
    by (rule arctan_le_arg) simp
  with inv have low: "pi / 2 - 1 / 64 \<le> arctan 64" by linarith
  have "1 / 64 \<le> pi / 180" using pi_ge_three by simp
  with low have "89 * pi / 180 \<le> arctan 64" by linarith
  then show "89 \<le> arctan 64 * 180 / pi"
    using pi_gt_zero by (simp add: field_simps)
  have "arctan 64 < pi / 2" by (rule arctan_ubound)
  then show "arctan 64 * 180 / pi < 90"
    using pi_gt_zero by (simp add: field_simps)
qed


lemma dtoi_eq: "of_int k \<le> r \<Longrightarrow> r < of_int k + 1 \<Longrightarrow> 0 \<le> k \<Longrightarrow> dtoi r = k"
  unfolding dtoi_def by (auto simp: floor_eq_iff)

lemma sqrt_65536: "sqrt 65536 = 256"
proof -
  have "sqrt ((256::real)\<^sup>2) = 256" by (simp only: real_sqrt_abs abs_numeral)
  then show ?thesis by simp
qed


lemma arctan_diff_le:
  fixes x y :: real
  assumes "x \<le> y"
  shows "arctan y - arctan x \<le> y - x"
proof -
  let ?f = "\<lambda>u. u - arctan u"
  have "\<exists>d. (?f has_real_derivative d) (at u) \<and> 0 \<le> d" for u :: real
  proof -
    have "(?f has_real_derivative (1 - inverse (1 + u\<^sup>2))) (at u)"
      by (auto intro!: derivative_eq_intros)
    moreover have "inverse (1 + u\<^sup>2) \<le> 1"
      by (simp add: inverse_le_1_iff)
    ultimately show ?thesis by (intro exI [of _ "1 - inverse (1 + u\<^sup>2)"]) simp
  qed
  then have "?f x \<le> ?f y"
    by (intro DERIV_nonneg_imp_nondecreasing [OF assms]) blast
  then show ?thesis by simp
qed









lemma dtoi_minus: "dtoi (- r) = - dtoi r"
  by (auto simp: dtoi_def ceiling_def)

lemma sqrt_tilted: "11776 < sqrt 141099008" "sqrt 141099008 \<le> 11890"
proof -
  show "11776 < sqrt 141099008" by (rule real_less_rsqrt) simp
  show "sqrt 141099008 \<le> 11890" by (rule real_le_lsqrt) simp_all
qed

lemma arctan_tilted:
  "44 \<le> arctan (11776 / sqrt 141099008) * 180 / pi"
  "arctan (11776 / sqrt 141099008) * 180 / pi < 45"
proof -
  let ?t = "11776 / sqrt 141099008 :: real"
  have pos: "0 < sqrt 141099008" using sqrt_tilted(1) by linarith
  have t1: "?t < 1" using sqrt_tilted(1) pos by (simp add: pos_divide_less_eq)
  have "99 / 100 * sqrt 141099008 \<le> 11776" using sqrt_tilted(2) by simp
  then have t2: "99 / 100 \<le> ?t" using pos by (simp add: pos_le_divide_eq)
  have "arctan 1 - arctan ?t \<le> 1 - ?t"
    by (rule arctan_diff_le) (use t1 in simp)
  then have "pi / 4 - arctan ?t \<le> 1 - ?t" by (simp only: arctan_one)
  with t2 have "pi / 4 - 1 / 100 \<le> arctan ?t" by linarith
  moreover have "1 / 100 \<le> pi / 180" using pi_ge_three by simp
  ultimately have "44 * pi / 180 \<le> arctan ?t" by linarith
  then show "44 \<le> arctan ?t * 180 / pi"
    using pi_gt_zero by (simp add: field_simps)
  have "arctan ?t < arctan 1" using t1 by (simp only: arctan_less_iff)
  then have "arctan ?t < pi / 4" by (simp only: arctan_one)
  then show "arctan ?t * 180 / pi < 45"
    using pi_gt_zero by (simp add: field_simps)
qed

lemma sqrt_144000000: "sqrt 144000000 = 12000"
proof -
  have "sqrt ((12000::real)\<^sup>2) = 12000" by (simp only: real_sqrt_abs abs_numeral)
  then show ?thesis by simp
qed

section \<open>The accelerometer calibration passes\<close>

lemma read_accel_axes:
  "(AcX_raw (read_accel (requestFrom 6 answer) w), AcY_raw (read_accel (requestFrom 6 answer) w),
    AcZ_raw (read_accel (requestFrom 6 answer) w)) = accel_axes answer"
  by (simp add: accel_axes_def read_accel_def Let_def split: prod.splits)

lemma cal_acc_roll_body_eq:
  "cal_acc_roll_body answer (count, sum_v, w) =
     (count + 1, sum_v + roll_acc_raw answer, read_accel (requestFrom 6 answer) w)"
  by (simp add: cal_acc_roll_body_def Let_def roll_acc_raw_def
      read_accel_axes [of answer w, symmetric])

lemma cal_acc_pitch_body_eq:
  "cal_acc_pitch_body answer (count, sum_v, w) =
     (count + 1, sum_v + pitch_acc_raw answer, read_accel (requestFrom 6 answer) w)"
  by (simp add: cal_acc_pitch_body_def Let_def pitch_acc_raw_def
      read_accel_axes [of answer w, symmetric])

lemma cal_acc_roll_loop:
  "fst (for_loop 0 n (\<lambda>i. cal_acc_roll_body (bus i)) (0, 0, w)) = of_nat n
   \<and> fst (snd (for_loop 0 n (\<lambda>i. cal_acc_roll_body (bus i)) (0, 0, w)))
       = word_of_int (\<Sum>i<n. sint (roll_acc_raw (bus i)))"
proof -
  let ?P = "\<lambda>j (st :: uint16_t \<times> int16_t \<times> world). fst st = (of_nat j :: uint16_t)
      \<and> fst (snd st) = (word_of_int (\<Sum>i<j. sint (roll_acc_raw (bus i))) :: int16_t)"
  have "?P n (for_loop 0 n (\<lambda>i. cal_acc_roll_body (bus i)) (0, 0, w))"
  proof (rule for_loop_inv [where P = ?P])
    show "?P 0 (0, 0, w)" by simp
    show "\<And>j s. 0 \<le> j \<Longrightarrow> j < n \<Longrightarrow> ?P j s \<Longrightarrow> ?P (Suc j) (cal_acc_roll_body (bus j) s)"
    proof -
      fix j s assume "?P j s"
      then show "?P (Suc j) (cal_acc_roll_body (bus j) s)"
        by (cases s) (simp add: cal_acc_roll_body_eq)
    qed
    show "0 \<le> n" by simp
  qed
  then show ?thesis by simp
qed

lemma cal_acc_roll_wrapped_sum:
  "fst (cal_acc_roll bus w) =
     word_of_int (sint (word_of_int (\<Sum>i<500. sint (roll_acc_raw (bus i))) :: int16_t) sdiv 500)"
  using cal_acc_roll_loop [of 500 bus w]
  by (simp add: cal_acc_roll_def Let_def case_prod_unfold)

lemma cal_acc_pitch_loop:
  "fst (for_loop 0 n (\<lambda>i. cal_acc_pitch_body (bus i)) (0, 0, w)) = of_nat n
   \<and> fst (snd (for_loop 0 n (\<lambda>i. cal_acc_pitch_body (bus i)) (0, 0, w)))
       = word_of_int (\<Sum>i<n. sint (pitch_acc_raw (bus i)))"
proof -
  let ?P = "\<lambda>j (st :: uint16_t \<times> int16_t \<times> world). fst st = (of_nat j :: uint16_t)
      \<and> fst (snd st) = (word_of_int (\<Sum>i<j. sint (pitch_acc_raw (bus i))) :: int16_t)"
  have "?P n (for_loop 0 n (\<lambda>i. cal_acc_pitch_body (bus i)) (0, 0, w))"
  proof (rule for_loop_inv [where P = ?P])
    show "?P 0 (0, 0, w)" by simp
    show "\<And>j s. 0 \<le> j \<Longrightarrow> j < n \<Longrightarrow> ?P j s \<Longrightarrow> ?P (Suc j) (cal_acc_pitch_body (bus j) s)"
    proof -
      fix j s assume "?P j s"
      then show "?P (Suc j) (cal_acc_pitch_body (bus j) s)"
        by (cases s) (simp add: cal_acc_pitch_body_eq)
    qed
    show "0 \<le> n" by simp
  qed
  then show ?thesis by simp
qed

lemma cal_acc_pitch_wrapped_sum:
  "fst (cal_acc_pitch bus w) =
     word_of_int (sint (word_of_int (\<Sum>i<200. sint (pitch_acc_raw (bus i))) :: int16_t) sdiv 200)"
  using cal_acc_pitch_loop [of 200 bus w]
  by (simp add: cal_acc_pitch_def Let_def case_prod_unfold)

lemma sint_word_of_int_16:
  fixes k :: int
  assumes "- 32768 \<le> k" "k < 32768"
  shows "sint (word_of_int k :: int16_t) = k"
proof -
  have "signed_take_bit 15 k = k"
    by (rule signed_take_bit_int_eq_self) (use assms in simp_all)
  then show ?thesis by (simp add: sint_sbintrunc')
qed

lemma dtoi_bounded:
  assumes "\<bar>r\<bar> \<le> 90"
  shows "\<bar>dtoi r\<bar> \<le> 90"
proof (cases "0 \<le> r")
  case True
  have 1: "0 \<le> \<lfloor>r\<rfloor>" using True by simp
  have "r \<le> 90" using assms by linarith
  then have 2: "\<lfloor>r\<rfloor> \<le> 90" by (simp add: floor_le_iff)
  have "dtoi r = \<lfloor>r\<rfloor>" using True by (simp add: dtoi_def)
  with 1 2 show ?thesis by linarith
next
  case False
  have 1: "\<lceil>r\<rceil> \<le> 0" using False by (simp add: ceiling_le_iff)
  have "- 90 \<le> r" using assms by linarith
  then have 2: "- 90 \<le> \<lceil>r\<rceil>" by (simp add: le_ceiling_iff)
  have "dtoi r = \<lceil>r\<rceil>" using False by (simp add: dtoi_def)
  with 1 2 show ?thesis by linarith
qed

lemma degrees_bounded: "\<bar>arctan t * 180 / pi\<bar> \<le> 90"
proof -
  have "\<bar>arctan t\<bar> < pi / 2"
    using arctan_lbound [of t] arctan_ubound [of t] by linarith
  then have "\<bar>arctan t\<bar> * 180 \<le> 90 * pi" by linarith
  then have "\<bar>arctan t\<bar> * 180 / pi \<le> 90"
    using pi_gt_zero by (simp add: pos_divide_le_eq)
  moreover have "\<bar>arctan t * 180 / pi\<bar> = \<bar>arctan t\<bar> * 180 / pi"
    using pi_gt_zero by (simp add: abs_mult)
  ultimately show ?thesis by simp
qed

lemma atan_quot_degrees_bounded:
  assumes "atan_quot n d = Some a"
  shows "\<bar>a * 180 / pi\<bar> \<le> 90"
proof -
  consider "a = pi / 2" | "a = - (pi / 2)" | "a = arctan (real_of_int n / d)"
    using assms by (auto simp: atan_quot_def split: if_splits)
  then show ?thesis
  proof cases
    case 1
    have "pi / 2 * 180 / pi = 90" by simp
    then show ?thesis unfolding 1 by simp
  next
    case 2
    have "- (pi / 2) * 180 / pi = - 90" by simp
    then show ?thesis unfolding 2 by simp
  next
    case 3
    then show ?thesis by (simp only: degrees_bounded)
  qed
qed

lemma pitch_angle_bounded: "pitch_angle x y z = Some r \<Longrightarrow> \<bar>r\<bar> \<le> 90"
  unfolding pitch_angle_def by (auto dest: atan_quot_degrees_bounded)

lemma denominator_zero:
  "sqrt ((real_of_int (sint (u :: int16_t)))\<^sup>2 + (real_of_int (sint (v :: int16_t)))\<^sup>2) = 0
     \<longleftrightarrow> u = 0 \<and> v = 0"
proof -
  have "(real_of_int (sint u))\<^sup>2 + (real_of_int (sint v))\<^sup>2 = 0 \<longleftrightarrow> sint u = 0 \<and> sint v = 0"
    by (simp only: sum_power2_eq_zero_iff of_int_eq_0_iff)
  then show ?thesis by (simp only: real_sqrt_eq_zero_cancel_iff signed_eq_0_iff)
qed

lemma pitch_angle_None: "pitch_angle x y z = None \<longleftrightarrow> x = 0 \<and> y = 0 \<and> z = 0"
proof -
  have "- 1 * sint x = 0 \<longleftrightarrow> x = 0" by (simp add: signed_eq_0_iff)
  then show ?thesis
    unfolding pitch_angle_def atan_quot_def
    by (simp only: denominator_zero map_option_is_None split: if_splits) auto
qed

lemma pitch_acc_raw_bounded:
  assumes "accel_axes answer \<noteq> (0, 0, 0)"
  shows "\<bar>sint (pitch_acc_raw answer)\<bar> \<le> 90"
proof -
  obtain x y z where a: "accel_axes answer = (x, y, z)" by (cases "accel_axes answer") auto
  with assms have "pitch_angle x y z \<noteq> None" by (simp add: pitch_angle_None)
  then obtain r where r: "pitch_angle x y z = Some r" by auto
  then have "\<bar>dtoi r\<bar> \<le> 90" by (intro dtoi_bounded pitch_angle_bounded)
  moreover from this have "sint (word_of_int (dtoi r) :: int16_t) = dtoi r"
    by (intro sint_word_of_int_16) simp_all
  ultimately show ?thesis
    by (simp add: pitch_acc_raw_def a r to_int16_def)
qed

lemma cal_acc_pitch_mean:
  assumes "\<And>i. i < 200 \<Longrightarrow> accel_axes (bus i) \<noteq> (0, 0, 0)"
  shows "fst (cal_acc_pitch bus w) =
           word_of_int ((\<Sum>i<200. sint (pitch_acc_raw (bus i))) sdiv 200)"
proof -
  let ?S = "\<Sum>i<200. sint (pitch_acc_raw (bus i))"
  have "\<bar>?S\<bar> \<le> (\<Sum>i<(200::nat). \<bar>sint (pitch_acc_raw (bus i))\<bar>)" by (rule sum_abs)
  also have "\<dots> \<le> (\<Sum>i<(200::nat). 90)"
    by (rule sum_mono) (use assms pitch_acc_raw_bounded in simp)
  finally have "\<bar>?S\<bar> \<le> 18000" by simp
  then have "sint (word_of_int ?S :: int16_t) = ?S"
    by (intro sint_word_of_int_16) simp_all
  then show ?thesis by (simp only: cal_acc_pitch_wrapped_sum)
qed

lemma cal_acc_pitch_identical:
  assumes "accel_axes answer \<noteq> (0, 0, 0)"
  shows "fst (cal_acc_pitch (\<lambda>i. answer) w) = pitch_acc_raw answer"
proof -
  have "fst (cal_acc_pitch (\<lambda>i. answer) w) =
      word_of_int ((\<Sum>i<(200::nat). sint (pitch_acc_raw answer)) sdiv 200)"
    by (rule cal_acc_pitch_mean) (rule assms)
  also have "(\<Sum>i<(200::nat). sint (pitch_acc_raw answer)) sdiv 200 = sint (pitch_acc_raw answer)"
    by (simp add: signed_divide_int_def sgn_mult abs_mult mult_sgn_abs)
  finally show ?thesis by simp
qed

lemma accel_axes_steep: "accel_axes steep_answer = (0, 16384, 256)"
  by (simp add: accel_axes_def Let_def read_accel_def requestFrom_def steep_answer_def
      read_axis_def signed_divide_int_def)

lemma steep_roll_value: "to_int16 (roll_angle 0 16384 256) = 89"
proof -
  have "roll_angle 0 16384 256 = Some (arctan 64 * 180 / pi)"
    by (simp add: roll_angle_def atan_quot_def sqrt_65536)
  moreover have "dtoi (arctan 64 * 180 / pi) = 89"
    using arctan_64_degrees by (intro dtoi_eq) simp_all
  ultimately show ?thesis by (simp add: to_int16_def)
qed

text \<open>
  C5: the claim is that the offset a calibration pass stores is the truncated mean of
  its projected values, so that identical samples give back their own projected value.
  The pitch pass (200 rounds) does so, as \<open>cal_acc_pitch_mean\<close> and
  \<open>cal_acc_pitch_identical\<close> show. The roll pass (500 rounds) adds into a 16-bit
  \<open>sum\<close> that wraps: 500 answers that each project to 89 degrees add up to 44500,
  which is stored as -21036, and the offset becomes -42 instead of 89.
\<close>

theorem cal_acc_roll_steep_overflows:
  "roll_acc_raw steep_answer = 89
   \<and> fst (cal_acc_roll (\<lambda>i. steep_answer) w) = - 42
   \<and> roll_offset_acc (snd (cal_acc_roll (\<lambda>i. steep_answer) w)) = - 42"
proof -
  have v: "roll_acc_raw steep_answer = 89"
    by (simp add: roll_acc_raw_def accel_axes_steep steep_roll_value)
  have r: "fst (cal_acc_roll (\<lambda>i. steep_answer) w) = - 42"
    by (simp add: cal_acc_roll_wrapped_sum v signed_divide_int_def)
  have "roll_offset_acc (snd (cal_acc_roll (\<lambda>i. steep_answer) w))
          = fst (cal_acc_roll (\<lambda>i. steep_answer) w)"
    by (simp add: cal_acc_roll_def Let_def case_prod_unfold)
  with v r show ?thesis by simp
qed

section \<open>The gyroscope read\<close>

lemma narrow_scast: "(ucast (scast (g :: int16_t) :: uint32_t) :: int16_t) = g"
  by (rule bit_word_eqI) (auto simp: bit_simps)

lemma narrow_word_of_int: "(ucast (word_of_int k :: uint32_t) :: int16_t) = word_of_int k"
  by (rule bit_word_eqI) (auto simp: bit_simps)

lemma narrow_add: "(ucast ((a :: uint32_t) + b) :: int16_t) = ucast a + ucast b"
proof -
  have "a + b = word_of_int (uint a + uint b)" by simp
  then have "(ucast (a + b) :: int16_t) = word_of_int (uint a + uint b)"
    by (simp only: narrow_word_of_int)
  then show ?thesis by (simp add: word_of_int_uint)
qed

lemma narrow_mult: "(ucast ((a :: uint32_t) * b) :: int16_t) = ucast a * ucast b"
proof -
  have "a * b = word_of_int (uint a * uint b)" by simp
  then have "(ucast (a * b) :: int16_t) = word_of_int (uint a * uint b)"
    by (simp only: narrow_word_of_int)
  then show ?thesis by simp
qed



text \<open>
  C6: the claim is that a call adds (rate - offset) times the seconds elapsed since the
  previous call to the previous call's angle, so that no elapsed time gives no
  increment. The code keeps neither the angle nor the time of the previous call: with
  the rate bytes 0x01, 0x00 (256) and offset 0, a call made 5000 ms after the clock
  started adds 256 * 5 = 1280 to whatever its local held, also when the previous call
  was made at the same millisecond; and a call made at 999 ms adds nothing.
\<close>

theorem read_gyro_roll_uses_time_since_start:
  "fst (read_gyro_roll g 5000 [0x01, 0x00] world0) = g + 1280
   \<and> fst (read_gyro_roll (g + 1280) 5000 [0x01, 0x00]
            (snd (read_gyro_roll g 5000 [0x01, 0x00] world0))) = g + 2560
   \<and> fst (read_gyro_roll g 999 [0x01, 0x00] world0) = g"
  by (simp add: read_gyro_roll_def Let_def narrow_add narrow_mult narrow_scast
      read_axis_def requestFrom_def world0_def signed_divide_int_def)

section \<open>The pitch read\<close>

text \<open>Every pitch read puts the value it returns into the shared cell.\<close>

lemma read_acc_pitch_publishes:
  "pitch (snd (read_acc_pitch answer w)) = Some (fst (read_acc_pitch answer w))"
  by (simp add: read_acc_pitch_def Let_def put_def)

text \<open>Of a full answer only the first byte of each axis is kept, times 256.\<close>

lemma accel_axes_bytes:
  "accel_axes [xh, xl, yh, yl, zh, zl] =
     (push_bit 8 (ucast xh), push_bit 8 (ucast yh), push_bit 8 (ucast zh))"
  by (simp add: accel_axes_def Let_def read_accel_def requestFrom_def read_axis_accel_bytes)

lemma accel_axes_tilted: "accel_axes tilted_answer = (11776, 7168, 9472)"
  by (simp add: accel_axes_def Let_def read_accel_def requestFrom_def tilted_answer_def
      read_axis_def signed_divide_int_def)

lemma read_accel_tilted:
  "AcX_raw (read_accel (requestFrom 6 tilted_answer) w) = 11776"
  "AcY_raw (read_accel (requestFrom 6 tilted_answer) w) = 7168"
  "AcZ_raw (read_accel (requestFrom 6 tilted_answer) w) = 9472"
  using read_accel_axes [of tilted_answer w] by (simp_all add: accel_axes_tilted)

lemma tilted_pitch_angle:
  "pitch_angle 11776 7168 9472 = Some (- (arctan (11776 / sqrt 141099008) * 180 / pi))"
proof -
  have "sqrt 141099008 \<noteq> 0" using sqrt_tilted(1) by linarith
  then show ?thesis
    by (simp add: pitch_angle_def atan_quot_def arctan_minus)
qed

lemma tilted_dtoi: "dtoi (- (arctan (11776 / sqrt 141099008) * 180 / pi)) = - 44"
proof -
  have "dtoi (arctan (11776 / sqrt 141099008) * 180 / pi) = 44"
    using arctan_tilted by (intro dtoi_eq) simp_all
  then show ?thesis by (simp only: dtoi_minus)
qed

text \<open>
  C7: the claim is that a pitch read returns the arc tangent of
  \<open>- accel_x / sqrt (accel_y\<^sup>2 + accel_z\<^sup>2)\<close> in degrees minus the stored pitch offset
  and publishes this same value. On the answer 2E E0, 1C 20, 25 80 (x = 12000,
  y = 7200, z = 9600, offset 0) the formula gives -45 degrees. The code keeps 11776,
  7168 and 9472 of the three axes (the second byte of each is lost, as in C1), and
  returns and publishes -44.
\<close>

theorem read_acc_pitch_tilted_off_by_one:
  "accel_axes tilted_answer = (11776, 7168, 9472)
   \<and> fst (read_acc_pitch tilted_answer world0) = - 44
   \<and> pitch (snd (read_acc_pitch tilted_answer world0)) = Some (- 44)
   \<and> to_int16 (minus_offset (pitch_angle 12000 7200 9600) (pitch_offset_acc world0)) = - 45"
proof -
  have o: "pitch_offset_acc world0 = 0" by (simp add: world0_def)
  have r: "fst (read_acc_pitch tilted_answer world0) = - 44"
    by (simp add: read_acc_pitch_def Let_def read_accel_tilted read_accel_keeps o
        tilted_pitch_angle minus_offset_def to_int16_def tilted_dtoi)
  have p: "pitch (snd (read_acc_pitch tilted_answer world0))
      = Some (fst (read_acc_pitch tilted_answer world0))"
    by (simp add: read_acc_pitch_def Let_def put_def)
  have "pitch_angle 12000 7200 9600 = Some (- 45)"
    by (simp add: pitch_angle_def atan_quot_def sqrt_144000000 arctan_minus arctan_one)
  moreover have "dtoi (- 45) = - 45" by (simp add: dtoi_def)
  ultimately have
    "to_int16 (minus_offset (pitch_angle 12000 7200 9600) (pitch_offset_acc world0)) = - 45"
    by (simp add: o minus_offset_def to_int16_def)
  with r p show ?thesis by (simp add: accel_axes_tilted)
qed

section \<open>Operations that receive no bytes\<close>






















section \<open>Transitions of the pitch task\<close>

text \<open>Where the idle block leaves the state, by the size of the error \<open>0 - p\<close>.\<close>

lemma state0_block_state:
  "state t = 0 \<Longrightarrow> state (state0_block p t) =
     (if \<bar>sint (- p)\<bar> < 10 then 4 else if \<bar>sint (- p)\<bar> > 10 then 1 else 0)"
  by (simp add: state0_block_def Let_def pitch_home_def err_accept_def)

text \<open>A pass that starts idle with an error below 10 only brakes, twice.\<close>

lemma small_error_pass:
  assumes "state t = 0" and "\<bar>sint (- p)\<bar> < 10"
  shows "state (task_PITCH_pass p t) = 0
    \<and> pitch_motor (task_PITCH_pass p t) = brake (brake (pitch_motor t))"
  using assms
  by (simp add: task_PITCH_pass_def state0_block_def state1_block_def state2_block_def
      state3_block_def state4_block_def Let_def pitch_home_def err_accept_def)

text \<open>
  C2: the claim is that the idle state goes to settle when the error is below 10 and
  to compute-direction for every error of 10 or more. The two tests of the code are
  \<open>< 10\<close> and \<open>> 10\<close>: with the pitch -10 or 10 (error 10 or -10) neither holds, the
  state stays 0, and the pass ends with the one brake of the idle block.
\<close>

theorem idle_error_ten_stays_idle:
  "state (state0_block (- 10) task0) = 0
   \<and> state (state0_block 10 task0) = 0
   \<and> err_pitch (state0_block (- 10) task0) = 10
   \<and> task_PITCH_pass (- 10) task0 =
       task0\<lparr>current_pitch := - 10, err_pitch := 10, pitch_motor := [(0, 255), (1, 255)]\<rparr>"
  by (simp add: task_PITCH_pass_def state0_block_def state1_block_def state2_block_def
      state3_block_def state4_block_def Let_def pitch_home_def err_accept_def task0_def
      brake_def ledcWrite_def)

text \<open>The compute-direction block always leaves 0 in \<open>set_pitch\<close> and never settles.\<close>

lemma state1_block_set_pitch: "state t = 1 \<Longrightarrow> set_pitch (state1_block t) = 0"
  by (simp add: state1_block_def Let_def)

lemma state1_block_never_settles: "state t = 1 \<Longrightarrow> state (state1_block t) \<noteq> 4"
  by (simp add: state1_block_def Let_def)

text \<open>
  C3: the claim is that compute-direction sets the setpoint to ten times the error
  once, goes to settle when the setpoint is exactly zero, and does not change the
  stored setpoint otherwise. The third test of the code assigns: with the error -30
  the block goes to drive-negative but leaves 0, not -300, in \<open>set_pitch\<close> (so does
  the whole pass that starts idle with the pitch 30: brake, pulse, brake); with the
  error 0 the state stays 1; and the pitch -32768, whose setpoint wraps to 0, leaves
  the task in state 1 at the end of the pass.
\<close>

theorem compute_direction_overwrites_setpoint:
  "state1_block (task0\<lparr>state := 1, err_pitch := - 30\<rparr>)
     = task0\<lparr>state := 2, err_pitch := - 30, set_pitch := 0\<rparr>
   \<and> state1_block (task0\<lparr>state := 1, err_pitch := 0\<rparr>)
     = task0\<lparr>state := 1, err_pitch := 0, set_pitch := 0\<rparr>
   \<and> task_PITCH_pass 30 task0
     = task0\<lparr>current_pitch := 30, err_pitch := - 30, set_pitch := 0,
         pitch_motor := [(0, 255), (1, 255), (0, 25), (1, 0), (0, 255), (1, 255)]\<rparr>
   \<and> task_PITCH_pass (- 32768) task0
     = task0\<lparr>state := 1, current_pitch := - 32768, err_pitch := - 32768,
         pitch_motor := [(0, 255), (1, 255)]\<rparr>"
  by (simp add: task_PITCH_pass_def state0_block_def state1_block_def state2_block_def
      state3_block_def state4_block_def Let_def pitch_home_def err_accept_def pitch_kp_def
      task0_def brake_def spin_def ledcWrite_def)

end
